theory Spec2Isabelle
  imports Complex_Main
begin

section \<open>JavaScript values and strings\<close>

text \<open>
  A JavaScript string is a sequence of UTF-16 code units, and \<open>.length\<close>, \<open>.trim()\<close>,
  \<open>.substring\<close> and the regular expressions of the two route handlers all work on code
  units. The Korean literals of the source are outside ASCII, so a string is modelled as
  the list of its code units.
\<close>

type_synonym jstring = "nat list"

definition ascii :: "string \<Rightarrow> jstring" where
  "ascii s = map of_char s"

text \<open>The two Korean string literals that end up in a draft: the placeholder title
  (U+D560 U+0020 U+C77C, "to-do") and the default category label (U+AC1C U+C778,
  "personal").\<close>

definition placeholder_title :: jstring where
  "placeholder_title = [0xD560, 0x20, 0xC77C]"

definition personal_label :: jstring where
  "personal_label = [0xAC1C, 0xC778]"

text \<open>The values a parsed JSON body or a completion-service answer can hold. Numbers
  are kept as integers: no claim depends on a fractional number.\<close>

datatype jsval =
    JUndefined
  | JNull
  | JBool bool
  | JNum int
  | JStr jstring
  | JArr "jsval list"
  | JObj "(jstring \<times> jsval) list"

text \<open>ToBoolean: what \<open>!v\<close> negates.\<close>

fun truthy :: "jsval \<Rightarrow> bool" where
  "truthy JUndefined = False"
| "truthy JNull = False"
| "truthy (JBool b) = b"
| "truthy (JNum n) = (n \<noteq> 0)"
| "truthy (JStr s) = (s \<noteq> [])"
| "truthy (JArr _) = True"
| "truthy (JObj _) = True"

fun is_string :: "jsval \<Rightarrow> bool" where
  "is_string (JStr _) = True"
| "is_string _ = False"

fun isArray :: "jsval \<Rightarrow> bool" where
  "isArray (JArr _) = True"
| "isArray _ = False"

text \<open>The code units that \<open>String.prototype.trim\<close> strips and that \<open>\s\<close> matches:
  ECMAScript WhiteSpace and LineTerminator.\<close>

definition is_ws :: "nat \<Rightarrow> bool" where
  "is_ws c \<longleftrightarrow>
     c = 0x09 \<or> c = 0x0A \<or> c = 0x0B \<or> c = 0x0C \<or> c = 0x0D \<or> c = 0x20 \<or> c = 0xA0 \<or>
     c = 0x1680 \<or> (0x2000 \<le> c \<and> c \<le> 0x200A) \<or> c = 0x2028 \<or> c = 0x2029 \<or>
     c = 0x202F \<or> c = 0x205F \<or> c = 0x3000 \<or> c = 0xFEFF"

definition trim :: "jstring \<Rightarrow> jstring" where
  "trim s = rev (dropWhile is_ws (rev (dropWhile is_ws s)))"

definition is_digit :: "nat \<Rightarrow> bool" where
  "is_digit c \<longleftrightarrow> 0x30 \<le> c \<and> c \<le> 0x39"

text \<open>\<open>haystack.includes(needle)\<close>.\<close>

fun includes_str :: "jstring \<Rightarrow> jstring \<Rightarrow> bool" where
  "includes_str [] needle = (needle = [])"
| "includes_str (c # cs) needle =
     (take (length needle) (c # cs) = needle \<or> includes_str cs needle)"


section \<open>Responses, thrown errors and the completion service\<close>

text \<open>The human-readable messages of the two handlers and of the page, by meaning.\<close>

datatype message =
    Input_required            \<comment> \<open>natural-language input is required\<close>
  | Input_empty               \<comment> \<open>the input is empty\<close>
  | Input_too_short           \<comment> \<open>at least 2 characters\<close>
  | Input_too_long            \<comment> \<open>at most 500 characters\<close>
  | Service_config_error      \<comment> \<open>the API key is not configured\<close>
  | Service_auth_error
  | Service_rate_limited
  | Network_error
  | Bad_request_format
  | Generation_failed
  | Todo_list_required        \<comment> \<open>a task list is required\<close>
  | Period_required           \<comment> \<open>an analysis period (today/week) is required\<close>
  | Analysis_failed           \<comment> \<open>the route's message for an error during the analysis\<close>
  | Analysis_request_failed   \<comment> \<open>the page's message for a failed response without one\<close>
  | Nothing_to_analyze        \<comment> \<open>there is no task to analyse\<close>

text \<open>\<open>Response.json(body, {status})\<close>: either \<open>{success: true, data}\<close> with status 200,
  or an error body with its status. \<open>success\<close> and \<open>error\<close> are \<open>None\<close> where the body has
  no such key. (\<open>details\<close>, present in development builds only, is left out.)\<close>

datatype 'a response =
    Success 'a
  | Failure (status: nat) (success: "bool option") (error: "message option")

text \<open>A value thrown by \<open>generateObject\<close>: the catch blocks read \<open>error.message\<close> and
  \<open>error.status\<close>.\<close>

record js_error =
  message :: "jstring option"
  err_status :: "int option"

text \<open>What one call of the completion service does: it throws, or it answers with a
  JSON value.\<close>

datatype outcome = Throws js_error | Returns jsval


section \<open>The natural-language task normalizer (route generate-todo)\<close>

subsection \<open>Input validation and preprocessing\<close>

record validation =
  valid :: bool
  v_error :: "message option"
  v_status :: "nat option"

text \<open>\<open>validateInput\<close>: the argument is whatever the request body holds under
  \<open>naturalLanguageInput\<close>.\<close>

fun validateInput :: "jsval \<Rightarrow> validation" where
  "validateInput input =
     (if \<not> truthy input \<or> \<not> is_string input then
        \<lparr>valid = False, v_error = Some Input_required, v_status = Some 400\<rparr>
      else case input of
        JStr s \<Rightarrow>
          (let trimmed = trim s in
           if length trimmed = 0 then
             \<lparr>valid = False, v_error = Some Input_empty, v_status = Some 400\<rparr>
           else if length trimmed < 2 then
             \<lparr>valid = False, v_error = Some Input_too_short, v_status = Some 400\<rparr>
           else if length trimmed > 500 then
             \<lparr>valid = False, v_error = Some Input_too_long, v_status = Some 400\<rparr>
           else \<lparr>valid = True, v_error = None, v_status = None\<rparr>)
      | _ \<Rightarrow> \<lparr>valid = False, v_error = Some Input_required, v_status = Some 400\<rparr>)"

text \<open>\<open>input.replace(/\s+/g, " ")\<close>: every maximal run of whitespace becomes one space.\<close>

function collapse_ws :: "jstring \<Rightarrow> jstring" where
  "collapse_ws [] = []"
| "collapse_ws (c # cs) =
     (if is_ws c then 0x20 # collapse_ws (dropWhile is_ws cs) else c # collapse_ws cs)"
  by pat_completeness auto
termination
  by (relation "measure length") (auto simp: less_Suc_eq_le length_dropWhile_le)

definition preprocessInput :: "jstring \<Rightarrow> jstring" where
  "preprocessInput input = collapse_ws (trim input)"

subsection \<open>The draft and its schema\<close>

datatype priority = High | Medium | Low

text \<open>\<open>result.object\<close>, of the type inferred from \<open>todoSchema\<close>. The repair pass tests
  every field for absence (\<open>!todoData.title\<close>, \<open>!todoData.category\<close>, ...), so every field
  may be \<open>None\<close> (undefined) here; a value that passed the schema has the required ones.\<close>

record todoData =
  title :: "jstring option"
  description :: "jstring option"
  due_date :: "jstring option"
  due_time :: "jstring option"
  priority :: "priority option"
  category :: "jstring list option"

text \<open>Property lookup on a parsed JSON object: a missing key reads as undefined.\<close>

definition field :: "(jstring \<times> jsval) list \<Rightarrow> string \<Rightarrow> jsval" where
  "field obj k = (case map_of obj (ascii k) of None \<Rightarrow> JUndefined | Some v \<Rightarrow> v)"

text \<open>The zod parsers that \<open>todoSchema\<close> is built from. Each returns \<open>None\<close> where zod
  reports an issue. \<open>z.string()\<close> accepts strings only; \<open>.optional()\<close> also accepts
  undefined; \<open>z.enum\<close> accepts the listed strings; \<open>z.array(z.string()).default([])\<close>
  turns undefined into the empty array and otherwise wants an array of strings.\<close>

fun z_string :: "jsval \<Rightarrow> jstring option" where
  "z_string (JStr s) = Some s"
| "z_string _ = None"

fun z_string_optional :: "jsval \<Rightarrow> jstring option option" where
  "z_string_optional JUndefined = Some None"
| "z_string_optional (JStr s) = Some (Some s)"
| "z_string_optional _ = None"

definition z_enum_priority :: "jsval \<Rightarrow> priority option" where
  "z_enum_priority v =
     (if v = JStr (ascii ''high'') then Some High
      else if v = JStr (ascii ''medium'') then Some Medium
      else if v = JStr (ascii ''low'') then Some Low
      else None)"

fun z_strings :: "jsval list \<Rightarrow> jstring list option" where
  "z_strings [] = Some []"
| "z_strings (JStr s # vs) = (case z_strings vs of None \<Rightarrow> None | Some ss \<Rightarrow> Some (s # ss))"
| "z_strings (_ # vs) = None"

fun z_string_array_default :: "jsval \<Rightarrow> jstring list option" where
  "z_string_array_default JUndefined = Some []"
| "z_string_array_default (JArr vs) = z_strings vs"
| "z_string_array_default _ = None"

text \<open>\<open>todoSchema\<close> (\<open>z.object\<close>: the value must be an object, unknown keys are dropped).\<close>

fun todoSchema :: "jsval \<Rightarrow> todoData option" where
  "todoSchema (JObj obj) =
     Option.bind (z_string (field obj ''title'')) (\<lambda>t.
     Option.bind (z_string_optional (field obj ''description'')) (\<lambda>de.
     Option.bind (z_string (field obj ''due_date'')) (\<lambda>dd.
     Option.bind (z_string_optional (field obj ''due_time'')) (\<lambda>dt.
     Option.bind (z_enum_priority (field obj ''priority'')) (\<lambda>p.
     Option.bind (z_string_array_default (field obj ''category'')) (\<lambda>c.
       Some \<lparr>title = Some t, description = de, due_date = Some dd, due_time = dt,
             priority = Some p, category = Some c\<rparr>))))))"
| "todoSchema _ = None"

text \<open>\<open>generateObject({schema, prompt})\<close> of the AI SDK: the service's answer is parsed
  with the schema; the parsed value (defaults filled in) is \<open>result.object\<close>, and an answer
  that does not fit the schema makes the call throw.\<close>

definition no_object_generated :: js_error where
  "no_object_generated =
     \<lparr>message = Some (ascii ''No object generated: response did not match schema.''),
      err_status = None\<rparr>"

definition generateObject :: "(jsval \<Rightarrow> 'a option) \<Rightarrow> outcome \<Rightarrow> js_error + 'a" where
  "generateObject schema out =
     (case out of
        Throws e \<Rightarrow> Inl e
      | Returns v \<Rightarrow> (case schema v of None \<Rightarrow> Inl no_object_generated | Some d \<Rightarrow> Inr d))"

subsection \<open>Dates and times\<close>

text \<open>\<open>/^\d{4}-\d{2}-\d{2}$/.test(s)\<close>. Without the \<open>m\<close> flag \<open>$\<close> is the end of the
  string, and \<open>\d\<close> is an ASCII digit.\<close>

definition dateRegex_test :: "jstring \<Rightarrow> bool" where
  "dateRegex_test s \<longleftrightarrow>
     length s = 10 \<and> list_all is_digit (take 4 s) \<and> s ! 4 = 0x2D \<and>
     list_all is_digit (take 2 (drop 5 s)) \<and> s ! 7 = 0x2D \<and> list_all is_digit (drop 8 s)"

text \<open>\<open>/^([01]?[0-9]|2[0-3]):[0-5][0-9]$/.test(s)\<close>: the hour is one digit, or two
  digits from 00 to 23.\<close>

definition timeRegex_test :: "jstring \<Rightarrow> bool" where
  "timeRegex_test s =
     (case s of
        [h, c, m1, m2] \<Rightarrow>
          is_digit h \<and> c = 0x3A \<and> 0x30 \<le> m1 \<and> m1 \<le> 0x35 \<and> is_digit m2
      | [h1, h2, c, m1, m2] \<Rightarrow>
          (((h1 = 0x30 \<or> h1 = 0x31) \<and> is_digit h2) \<or> (h1 = 0x32 \<and> 0x30 \<le> h2 \<and> h2 \<le> 0x33)) \<and>
          c = 0x3A \<and> 0x30 \<le> m1 \<and> m1 \<le> 0x35 \<and> is_digit m2
      | _ \<Rightarrow> False)"

text \<open>The number a run of digits denotes.\<close>

definition digits_val :: "jstring \<Rightarrow> nat" where
  "digits_val s = foldl (\<lambda>a c. 10 * a + (c - 0x30)) 0 s"

definition year_of :: "jstring \<Rightarrow> int" where
  "year_of s = int (digits_val (take 4 s))"

definition month_of :: "jstring \<Rightarrow> nat" where
  "month_of s = digits_val (take 2 (drop 5 s))"

definition day_of :: "jstring \<Rightarrow> nat" where
  "day_of s = digits_val (drop 8 s)"

text \<open>The calendar of ECMAScript (sections Day Number and Time within Day, MakeDay):
  days are counted from 1970-01-01.\<close>

definition is_leap :: "int \<Rightarrow> bool" where
  "is_leap y \<longleftrightarrow> (y mod 4 = 0 \<and> y mod 100 \<noteq> 0) \<or> y mod 400 = 0"

definition DayFromYear :: "int \<Rightarrow> int" where
  "DayFromYear y =
     365 * (y - 1970) + (y - 1969) div 4 - (y - 1901) div 100 + (y - 1601) div 400"

definition days_in_month :: "int \<Rightarrow> nat \<Rightarrow> nat" where
  "days_in_month y m =
     (if m = 2 then (if is_leap y then 29 else 28)
      else if m = 4 \<or> m = 6 \<or> m = 9 \<or> m = 11 then 30 else 31)"

text \<open>Days of the year before the first of month \<open>m\<close> (1 to 12): the table of
  MonthFromTime.\<close>

definition days_before_month :: "int \<Rightarrow> nat \<Rightarrow> int" where
  "days_before_month y m =
     (let leap = (if is_leap y then 1 else 0) in
      if m \<le> 1 then 0
      else if m = 2 then 31
      else if m = 3 then 59 + leap
      else if m = 4 then 90 + leap
      else if m = 5 then 120 + leap
      else if m = 6 then 151 + leap
      else if m = 7 then 181 + leap
      else if m = 8 then 212 + leap
      else if m = 9 then 243 + leap
      else if m = 10 then 273 + leap
      else if m = 11 then 304 + leap
      else 334 + leap)"

text \<open>MakeDay: a day of the month beyond the month's last day runs on into the
  following month.\<close>

definition MakeDay :: "int \<Rightarrow> nat \<Rightarrow> nat \<Rightarrow> int" where
  "MakeDay y m d = DayFromYear y + days_before_month y m + int d - 1"

text \<open>
  \<open>new Date(s + "T00:00:00")\<close> for a string \<open>s\<close> that \<open>dateRegex\<close> accepts, as the
  JavaScript engine of the route handler (V8, under Node.js) evaluates it: the date-time
  parser takes a month from 1 to 12 and a day from 1 to 31 whatever the month is
  (\<open>DayComposer::IsMonth\<close>, \<open>IsDay\<close>), and anything else is Invalid Date. The time value is
  local midnight of \<open>MakeDay\<close>, so two such dates compare as their day numbers do.
  \<open>None\<close> is Invalid Date (\<open>getTime()\<close> is NaN). The handler's other argument, \<open>today\<close>,
  is cut from \<open>toISOString()\<close> and has this form for every year from 0 to 9999.\<close>

definition new_Date :: "jstring \<Rightarrow> int option" where
  "new_Date s =
     (if dateRegex_test s \<and> 1 \<le> month_of s \<and> month_of s \<le> 12 \<and> 1 \<le> day_of s \<and> day_of s \<le> 31
      then Some (MakeDay (year_of s) (month_of s) (day_of s))
      else None)"

subsection \<open>The repair pass and the handler\<close>

text \<open>The validation and post-processing of \<open>result.object\<close> (the code between the call
  of the service and the success response), one function for each field that the code
  reassigns. \<open>today\<close> is \<open>now.toISOString().split("T")[0]\<close>. A test \<open>!todoData.x\<close> holds of
  an absent field and of the empty string.\<close>

definition repair_title :: "jstring option \<Rightarrow> jstring" where
  "repair_title t0 =
     (let t1 = (case t0 of
                  None \<Rightarrow> placeholder_title
                | Some t \<Rightarrow> if t = [] \<or> length (trim t) = 0 then placeholder_title else t);
          processedTitle = trim t1
      in if length processedTitle < 1 then placeholder_title
         else if length processedTitle > 200 then take 200 processedTitle @ ascii ''...''
         else processedTitle)"

definition repair_due_date :: "jstring \<Rightarrow> jstring option \<Rightarrow> jstring" where
  "repair_due_date today d0 =
     (let d1 = (case d0 of None \<Rightarrow> today | Some d \<Rightarrow> if d = [] then today else d)
      in if \<not> dateRegex_test d1 then today
         else case new_Date d1 of
                None \<Rightarrow> today
              | Some parsedDate \<Rightarrow>
                  (case new_Date today of
                     None \<Rightarrow> d1
                   | Some todayDate \<Rightarrow> if parsedDate < todayDate then today else d1))"

definition repair_due_time :: "jstring option \<Rightarrow> jstring" where
  "repair_due_time t0 =
     (case t0 of
        None \<Rightarrow> ascii ''09:00''
      | Some t \<Rightarrow>
          if t = [] then ascii ''09:00''
          else if \<not> timeRegex_test t then ascii ''09:00''
          else t)"

definition repair_description :: "jstring option \<Rightarrow> jstring option" where
  "repair_description d0 =
     (case d0 of
        None \<Rightarrow> None
      | Some d \<Rightarrow>
          if d = [] then Some d
          else (let t = trim d
                in if length t > 1000 then Some (take 1000 t @ ascii ''...'') else Some t))"

text \<open>The category is replaced when \<open>!todoData.category || !Array.isArray(todoData.category)\<close>;
  a value of the schema's type \<open>string[]\<close> is an array and is truthy (the empty array
  too), so the test holds of an absent category only.\<close>

definition repair :: "jstring \<Rightarrow> todoData \<Rightarrow> todoData" where
  "repair today d =
     \<lparr>title = Some (repair_title (title d)),
      description = repair_description (description d),
      due_date = Some (repair_due_date today (due_date d)),
      due_time = Some (repair_due_time (due_time d)),
      priority = (case priority d of None \<Rightarrow> Some Medium | Some p \<Rightarrow> Some p),
      category = (case category d of None \<Rightarrow> Some [personal_label] | Some c \<Rightarrow> Some c)\<rparr>"

text \<open>The catch block of the handler.\<close>

definition msg_includes :: "js_error \<Rightarrow> string \<Rightarrow> bool" where
  "msg_includes e k = (case message e of None \<Rightarrow> False | Some m \<Rightarrow> includes_str m (ascii k))"

definition generate_catch :: "js_error \<Rightarrow> todoData response" where
  "generate_catch e =
     (if msg_includes e ''API key'' \<or> msg_includes e ''authentication'' then
        Failure 500 (Some False) (Some Service_auth_error)
      else if msg_includes e ''quota'' \<or> msg_includes e ''limit'' \<or>
              msg_includes e ''rate limit'' \<or> err_status e = Some 429 then
        Failure 429 (Some False) (Some Service_rate_limited)
      else if msg_includes e ''network'' \<or> msg_includes e ''fetch'' \<or>
              msg_includes e ''timeout'' then
        Failure 500 (Some False) (Some Network_error)
      else if msg_includes e ''bad request'' \<or> err_status e = Some 400 then
        Failure 400 (Some False) (Some Bad_request_format)
      else Failure 500 (Some False) (Some Generation_failed))"

text \<open>The TypeError of a method call on a value that has no such method.\<close>

definition type_error :: js_error where
  "type_error = \<lparr>message = Some (ascii ''is not a function''), err_status = None\<rparr>"

text \<open>
  The handler \<open>POST\<close> of the normalizer. \<open>naturalLanguageInput\<close> is that key of the parsed
  request body, \<open>apiKey\<close> the environment variable, and \<open>svc\<close> the completion service: the
  prompt is built from the preprocessed input and the clock, so the service is a function
  of the preprocessed input. The second component of the result is the list of calls
  made to the service, each recorded by the preprocessed input it was sent.\<close>

definition POST_generate_todo ::
  "jsval \<Rightarrow> jstring option \<Rightarrow> jstring \<Rightarrow> (jstring \<Rightarrow> outcome) \<Rightarrow> todoData response \<times> jstring list"
where
  "POST_generate_todo naturalLanguageInput apiKey today svc =
     (let validation = validateInput naturalLanguageInput in
      if \<not> valid validation then
        (Failure (case v_status validation of None \<Rightarrow> 400 | Some st \<Rightarrow> if st = 0 then 400 else st)
           (Some False) (v_error validation), [])
      else case naturalLanguageInput of
        JStr input \<Rightarrow>
          (let processedInput = preprocessInput input in
           if apiKey = None \<or> apiKey = Some [] then
             (Failure 500 None (Some Service_config_error), [])
           else case generateObject todoSchema (svc processedInput) of
                  Inl e \<Rightarrow> (generate_catch e, [processedInput])
                | Inr todoData \<Rightarrow> (Success (repair today todoData), [processedInput]))
      | _ \<Rightarrow> (generate_catch type_error, []))"


section \<open>The productivity summarizer (route analyze-todos)\<close>

subsection \<open>Tasks and dates\<close>

text \<open>A \<open>Date\<close> object: Invalid Date, or a time value. The model keeps the time value in
  local time (milliseconds since local 1970-01-01T00:00), with a constant offset to UTC,
  so that \<open>getHours()\<close> and the local midnights of the page are arithmetic on it.\<close>

datatype jsdate = Invalid_Date | Date int

definition msPerHour :: int where "msPerHour = 3600000"
definition msPerDay :: int where "msPerDay = 86400000"

text \<open>\<open>date.getHours()\<close>; \<open>None\<close> is NaN.\<close>

fun getHours :: "jsdate \<Rightarrow> nat option" where
  "getHours Invalid_Date = None"
| "getHours (Date t) = Some (nat ((t div msPerHour) mod 24))"

text \<open>The type \<open>Todo\<close> of the handler. \<open>todo_due_date\<close> is \<open>None\<close> where \<open>todo.due_date\<close>
  is falsy (absent, null or the empty string) and otherwise \<open>new Date(todo.due_date)\<close>;
  \<open>todo_completed\<close> is the truth value of \<open>todo.completed\<close>.\<close>

record Todo =
  todo_id :: jstring
  todo_title :: jstring
  todo_due_date :: "jsdate option"
  todo_priority :: priority
  todo_category :: "jstring list"
  todo_completed :: bool

subsection \<open>Statistics\<close>

text \<open>JavaScript numbers are doubles; the model computes the rates in exact rational
  arithmetic. The counts are array lengths, far below \<open>2^53\<close>, where the double quotient
  is the correctly rounded rational one.\<close>

definition totalTasks :: "Todo list \<Rightarrow> int" where
  "totalTasks todos = int (length todos)"

definition completedTasks :: "Todo list \<Rightarrow> int" where
  "completedTasks todos = int (length (filter todo_completed todos))"

definition incompleteTasks :: "Todo list \<Rightarrow> int" where
  "incompleteTasks todos = totalTasks todos - completedTasks todos"

definition completionRate :: "Todo list \<Rightarrow> rat" where
  "completionRate todos =
     (if totalTasks todos > 0
      then (of_int (completedTasks todos) / of_int (totalTasks todos)) * 100
      else 0)"

datatype slot = Morning | Afternoon | Evening

record counts =
  total :: nat
  completed :: nat

text \<open>\<open>timeSlotCount\<close> is an object with the keys morning, afternoon, evening, inserted in
  that order; \<open>Object.entries\<close> lists them in insertion order, so the object is the list
  of its entries.\<close>

type_synonym slot_counts = "(slot \<times> counts) list"

definition timeSlotCount_init :: slot_counts where
  "timeSlotCount_init =
     [(Morning, \<lparr>total = 0, completed = 0\<rparr>),
      (Afternoon, \<lparr>total = 0, completed = 0\<rparr>),
      (Evening, \<lparr>total = 0, completed = 0\<rparr>)]"

text \<open>\<open>timeSlotCount[slot].total++\<close> and, for a completed task, \<open>.completed++\<close>.\<close>

definition bump :: "slot \<Rightarrow> bool \<Rightarrow> slot_counts \<Rightarrow> slot_counts" where
  "bump sl is_completed tsc =
     map (\<lambda>(k, c). if k = sl
                     then (k, \<lparr>total = total c + 1,
                               completed = (if is_completed then completed c + 1 else completed c)\<rparr>)
                     else (k, c)) tsc"

text \<open>A comparison with NaN is false, so an Invalid Date lands in the last branch.\<close>

definition slot_of_hour :: "nat option \<Rightarrow> slot" where
  "slot_of_hour hour =
     (case hour of
        None \<Rightarrow> Evening
      | Some h \<Rightarrow> if h < 12 then Morning else if h < 18 then Afternoon else Evening)"

definition timeSlot_step :: "slot_counts \<Rightarrow> Todo \<Rightarrow> slot_counts" where
  "timeSlot_step tsc todo =
     (case todo_due_date todo of
        None \<Rightarrow> tsc
      | Some date \<Rightarrow> bump (slot_of_hour (getHours date)) (todo_completed todo) tsc)"

definition timeSlotCount :: "Todo list \<Rightarrow> slot_counts" where
  "timeSlotCount todos = foldl timeSlot_step timeSlotCount_init todos"

definition slot_rate :: "counts \<Rightarrow> rat" where
  "slot_rate stats =
     (if total stats > 0 then (of_nat (completed stats) / of_nat (total stats)) * 100 else 0)"

text \<open>\<open>Array.prototype.sort(compare)\<close>: a stable sort (ECMAScript 2019), here by
  insertion. \<open>x\<close> goes before the first element it does not sort after.\<close>

fun insert_by :: "('a \<Rightarrow> 'a \<Rightarrow> rat) \<Rightarrow> 'a \<Rightarrow> 'a list \<Rightarrow> 'a list" where
  "insert_by cmp x [] = [x]"
| "insert_by cmp x (y # ys) = (if cmp x y \<le> 0 then x # y # ys else y # insert_by cmp x ys)"

definition sort_by :: "('a \<Rightarrow> 'a \<Rightarrow> rat) \<Rightarrow> 'a list \<Rightarrow> 'a list" where
  "sort_by cmp xs = foldr (insert_by cmp) xs []"

text \<open>\<open>mostProductiveTimeSlot\<close>: the entries mapped to \<open>{slot, rate}\<close>, sorted by
  \<open>(a, b) => b.rate - a.rate\<close>, element 0 (undefined, here \<open>None\<close>, for an empty array).\<close>

definition mostProductiveTimeSlot :: "slot_counts \<Rightarrow> (slot \<times> rat) option" where
  "mostProductiveTimeSlot tsc =
     (case sort_by (\<lambda>a b. snd b - snd a) (map (\<lambda>(sl, stats). (sl, slot_rate stats)) tsc) of
        [] \<Rightarrow> None
      | x # _ \<Rightarrow> Some x)"

subsection \<open>The handler\<close>

text \<open>The statistics that the handler computes before it calls the service and writes
  into the prompt (those the properties below are about; the per-priority, per-category,
  per-weekday and overdue figures are computed beside them and go into the prompt only).\<close>

record statistics =
  st_totalTasks :: int
  st_completedTasks :: int
  st_incompleteTasks :: int
  st_completionRate :: rat
  st_timeSlotCount :: slot_counts
  st_mostProductiveTimeSlot :: "(slot \<times> rat) option"

definition compute_statistics :: "Todo list \<Rightarrow> statistics" where
  "compute_statistics todos =
     \<lparr>st_totalTasks = totalTasks todos,
      st_completedTasks = completedTasks todos,
      st_incompleteTasks = incompleteTasks todos,
      st_completionRate = completionRate todos,
      st_timeSlotCount = timeSlotCount todos,
      st_mostProductiveTimeSlot = mostProductiveTimeSlot (timeSlotCount todos)\<rparr>"

record analysis =
  summary :: jstring
  urgentTasks :: "jstring list"
  insights :: "jstring list"
  recommendations :: "jstring list"

fun z_string_array :: "jsval \<Rightarrow> jstring list option" where
  "z_string_array (JArr vs) = z_strings vs"
| "z_string_array _ = None"

fun analysisSchema :: "jsval \<Rightarrow> analysis option" where
  "analysisSchema (JObj obj) =
     Option.bind (z_string (field obj ''summary'')) (\<lambda>s.
     Option.bind (z_string_array (field obj ''urgentTasks'')) (\<lambda>u.
     Option.bind (z_string_array (field obj ''insights'')) (\<lambda>i.
     Option.bind (z_string_array (field obj ''recommendations'')) (\<lambda>r.
       Some \<lparr>summary = s, urgentTasks = u, insights = i, recommendations = r\<rparr>))))"
| "analysisSchema _ = None"

definition analyze_catch :: "js_error \<Rightarrow> analysis response" where
  "analyze_catch e =
     (if msg_includes e ''API key'' \<or> msg_includes e ''authentication'' then
        Failure 500 (Some False) (Some Service_auth_error)
      else if msg_includes e ''quota'' \<or> msg_includes e ''limit'' \<or>
              msg_includes e ''rate limit'' \<or> err_status e = Some 429 then
        Failure 429 (Some False) (Some Service_rate_limited)
      else if msg_includes e ''network'' \<or> msg_includes e ''fetch'' \<or>
              msg_includes e ''timeout'' then
        Failure 500 (Some False) (Some Network_error)
      else Failure 500 (Some False) (Some Analysis_failed))"

text \<open>
  The handler \<open>POST\<close> of the summarizer. \<open>todos\<close> and \<open>period\<close> are those keys of the
  parsed request body. \<open>read_todo\<close> reads an element of the array as the \<open>Todo\<close> the handler
  annotates it to be. The service is a function of what the prompt is built from: the
  statistics, the tasks and the period. The second component of the result is the list
  of calls made to the service, each recorded by the task list it was about.\<close>

definition POST_analyze_todos ::
  "(jsval \<Rightarrow> Todo) \<Rightarrow> jsval \<Rightarrow> jsval \<Rightarrow> jstring option \<Rightarrow>
   (statistics \<Rightarrow> Todo list \<Rightarrow> jsval \<Rightarrow> outcome) \<Rightarrow> analysis response \<times> Todo list list"
where
  "POST_analyze_todos read_todo todos period apiKey svc =
     (if \<not> truthy todos \<or> \<not> isArray todos then
        (Failure 400 (Some False) (Some Todo_list_required), [])
      else if \<not> truthy period \<or>
              (period \<noteq> JStr (ascii ''today'') \<and> period \<noteq> JStr (ascii ''week'')) then
        (Failure 400 (Some False) (Some Period_required), [])
      else if apiKey = None \<or> apiKey = Some [] then
        (Failure 500 (Some False) (Some Service_config_error), [])
      else case todos of
        JArr vs \<Rightarrow>
          (let tasks = map read_todo vs in
           case generateObject analysisSchema (svc (compute_statistics tasks) tasks period) of
             Inl e \<Rightarrow> (analyze_catch e, [tasks])
           | Inr a \<Rightarrow> (Success a, [tasks]))
      | _ \<Rightarrow> (analyze_catch type_error, []))"

subsection \<open>The caller on the page\<close>

datatype period = Today | Week

text \<open>The part of the page's state that \<open>handleAnalyzeTodos\<close> sets.\<close>

record analysis_state =
  analysisError :: "message option"
  analysisResult :: "analysis option"

text \<open>Local midnight of the day of \<open>now\<close>, \<open>now.getDay()\<close> (1970-01-01 was a Thursday),
  and the Monday that starts the week of \<open>now\<close>:
  \<open>new Date(year, month, getDate - dayOfWeek + (dayOfWeek === 0 ? -6 : 1))\<close> is the midnight
  that many days away from the first of the month, days outside the month carrying over.\<close>

definition todayStart :: "int \<Rightarrow> int" where
  "todayStart now = (now div msPerDay) * msPerDay"

definition getDay :: "int \<Rightarrow> int" where
  "getDay now = (now div msPerDay + 4) mod 7"

definition weekStart :: "int \<Rightarrow> int" where
  "weekStart now =
     todayStart now + (- getDay now + (if getDay now = 0 then - 6 else 1)) * msPerDay"

text \<open>The filter predicate: a falsy due date is dropped, and so is an Invalid Date (both
  comparisons with NaN are false).\<close>

definition due_within :: "int \<Rightarrow> int \<Rightarrow> Todo \<Rightarrow> bool" where
  "due_within start finish todo =
     (case todo_due_date todo of
        None \<Rightarrow> False
      | Some Invalid_Date \<Rightarrow> False
      | Some (Date dueDate) \<Rightarrow> dueDate \<ge> start \<and> dueDate < finish)"

text \<open>The tasks of the page that fall due in the period: today, or the week from Monday
  to Sunday.\<close>

definition filterTodos :: "period \<Rightarrow> int \<Rightarrow> Todo list \<Rightarrow> Todo list" where
  "filterTodos period now todos =
     (case period of
        Today \<Rightarrow> filter (due_within (todayStart now) (todayStart now + msPerDay)) todos
      | Week \<Rightarrow> filter (due_within (weekStart now) (weekStart now + 7 * msPerDay)) todos)"

text \<open>
  \<open>handleAnalyzeTodos\<close>. \<open>todos\<close> is the page's task list, \<open>now\<close> the clock (local time
  value), and \<open>fetch\<close> the request to the summarizer route, giving the route's response.
  The second component of the result is the list of requests sent to the route; the
  completion service is reached through the route only.\<close>

definition handleAnalyzeTodos ::
  "Todo list \<Rightarrow> period \<Rightarrow> int \<Rightarrow> (Todo list \<Rightarrow> period \<Rightarrow> analysis response) \<Rightarrow>
   analysis_state \<times> (Todo list \<times> period) list"
where
  "handleAnalyzeTodos todos period now fetch =
     (let filteredTodos = filterTodos period now todos
      in if length filteredTodos = 0 then
           (\<lparr>analysisError = Some Nothing_to_analyze, analysisResult = None\<rparr>, [])
         else case fetch filteredTodos period of
                Success a \<Rightarrow>
                  (\<lparr>analysisError = None, analysisResult = Some a\<rparr>, [(filteredTodos, period)])
              | Failure st ok e \<Rightarrow>
                  (\<lparr>analysisError = Some (case e of None \<Rightarrow> Analysis_request_failed | Some m \<Rightarrow> m),
                    analysisResult = None\<rparr>, [(filteredTodos, period)]))"


section \<open>Vocabulary of the specification\<close>

text \<open>A string that denotes a day of the calendar: the form \<open>YYYY-MM-DD\<close>, a month from
  1 to 12 and a day that the month has in that year.\<close>

definition real_date :: "jstring \<Rightarrow> bool" where
  "real_date s \<longleftrightarrow>
     dateRegex_test s \<and> 1 \<le> month_of s \<and> month_of s \<le> 12 \<and>
     1 \<le> day_of s \<and> day_of s \<le> days_in_month (year_of s) (month_of s)"

text \<open>Calendar order on such strings.\<close>

definition date_before :: "jstring \<Rightarrow> jstring \<Rightarrow> bool" where
  "date_before a b \<longleftrightarrow>
     year_of a < year_of b \<or>
     (year_of a = year_of b \<and>
      (month_of a < month_of b \<or> (month_of a = month_of b \<and> day_of a < day_of b)))"

text \<open>The strict 24-hour pattern \<open>HH:MM\<close>: two digits for the hour, 00 to 23.\<close>

definition strict_HHMM :: "jstring \<Rightarrow> bool" where
  "strict_HHMM s =
     (case s of
        [h1, h2, c, m1, m2] \<Rightarrow>
          (((h1 = 0x30 \<or> h1 = 0x31) \<and> is_digit h2) \<or> (h1 = 0x32 \<and> 0x30 \<le> h2 \<and> h2 \<le> 0x33)) \<and>
          c = 0x3A \<and> 0x30 \<le> m1 \<and> m1 \<le> 0x35 \<and> is_digit m2
      | _ \<Rightarrow> False)"

text \<open>A draft that is already valid with respect to the reference date \<open>today\<close>.\<close>

definition valid_draft :: "jstring \<Rightarrow> todoData \<Rightarrow> bool" where
  "valid_draft today d \<longleftrightarrow>
     (case title d of None \<Rightarrow> False | Some t \<Rightarrow> t \<noteq> [] \<and> trim t = t \<and> length t \<le> 200) \<and>
     (case due_date d of None \<Rightarrow> False | Some s \<Rightarrow> real_date s \<and> \<not> date_before s today) \<and>
     (case due_time d of None \<Rightarrow> False | Some t \<Rightarrow> strict_HHMM t) \<and>
     priority d \<noteq> None \<and> category d \<noteq> None \<and>
     (case description d of None \<Rightarrow> True | Some de \<Rightarrow> trim de = de \<and> length de \<le> 1000)"

text \<open>Concrete drafts and answers of the completion service.\<close>

definition example_draft :: todoData where
  "example_draft =
     \<lparr>title = Some (ascii ''pay rent''), description = Some (ascii ''before noon''),
      due_date = Some (ascii ''2025-06-02''), due_time = Some (ascii ''10:00''),
      priority = Some High, category = Some [personal_label]\<rparr>"

definition answer_day_overflow :: jsval where
  "answer_day_overflow =
     JObj [(ascii ''title'', JStr (ascii ''pay rent'')),
           (ascii ''due_date'', JStr (ascii ''2099-02-30'')),
           (ascii ''due_time'', JStr (ascii ''10:00'')),
           (ascii ''priority'', JStr (ascii ''medium'')),
           (ascii ''category'', JArr [JStr personal_label])]"

definition answer_short_hour :: jsval where
  "answer_short_hour =
     JObj [(ascii ''title'', JStr (ascii ''pay rent'')),
           (ascii ''due_date'', JStr (ascii ''2025-06-02'')),
           (ascii ''due_time'', JStr (ascii ''9:30'')),
           (ascii ''priority'', JStr (ascii ''medium'')),
           (ascii ''category'', JArr [JStr personal_label])]"

definition answer_category_string :: "(jstring \<times> jsval) list" where
  "answer_category_string =
     [(ascii ''title'', JStr (ascii ''pay rent'')),
      (ascii ''due_date'', JStr (ascii ''2025-06-02'')),
      (ascii ''due_time'', JStr (ascii ''10:00'')),
      (ascii ''priority'', JStr (ascii ''medium'')),
      (ascii ''category'', JStr personal_label)]"

definition answer_no_category :: jsval where
  "answer_no_category =
     JObj [(ascii ''title'', JStr (ascii ''pay rent'')),
           (ascii ''due_date'', JStr (ascii ''2025-06-02'')),
           (ascii ''due_time'', JStr (ascii ''10:00'')),
           (ascii ''priority'', JStr (ascii ''medium''))]"

definition answer_analysis :: jsval where
  "answer_analysis =
     JObj [(ascii ''summary'', JStr (ascii ''nothing yet'')),
           (ascii ''urgentTasks'', JArr []),
           (ascii ''insights'', JArr []),
           (ascii ''recommendations'', JArr [])]"

text \<open>Tasks: due at 09:00 and at 14:00 local time of 1970-01-01, and without a due date.\<close>

definition morning_task :: Todo where
  "morning_task =
     \<lparr>todo_id = ascii ''1'', todo_title = ascii ''run'', todo_due_date = Some (Date 32400000),
      todo_priority = Medium, todo_category = [], todo_completed = True\<rparr>"

definition afternoon_task :: Todo where
  "afternoon_task =
     \<lparr>todo_id = ascii ''2'', todo_title = ascii ''read'', todo_due_date = Some (Date 50400000),
      todo_priority = High, todo_category = [], todo_completed = True\<rparr>"

definition undated_task :: Todo where
  "undated_task =
     \<lparr>todo_id = ascii ''3'', todo_title = ascii ''rest'', todo_due_date = None,
      todo_priority = Low, todo_category = [], todo_completed = False\<rparr>"

text \<open>\<open>timeSlotCount[slot]\<close>, and the completion rate of a slot.\<close>

definition slot_stats :: "slot_counts \<Rightarrow> slot \<Rightarrow> counts" where
  "slot_stats tsc sl =
     (case map_of tsc sl of None \<Rightarrow> \<lparr>total = 0, completed = 0\<rparr> | Some c \<Rightarrow> c)"

definition rate_of :: "Todo list \<Rightarrow> slot \<Rightarrow> rat" where
  "rate_of todos sl = slot_rate (slot_stats (timeSlotCount todos) sl)"

text \<open>The fixed order of the slots.\<close>

fun slot_index :: "slot \<Rightarrow> nat" where
  "slot_index Morning = 0"
| "slot_index Afternoon = 1"
| "slot_index Evening = 2"

text \<open>The slot of a task by its due hour: before 12 morning, from 12 to before 18
  afternoon, otherwise evening; none for a task without a due timestamp.\<close>

definition due_slot :: "Todo \<Rightarrow> slot option" where
  "due_slot t =
     (case todo_due_date t of
        None \<Rightarrow> None
      | Some d \<Rightarrow>
          (case getHours d of
             None \<Rightarrow> Some Evening
           | Some h \<Rightarrow>
               if h < 12 then Some Morning
               else if 12 \<le> h \<and> h < 18 then Some Afternoon
               else Some Evening))"

definition slot_total :: "Todo list \<Rightarrow> slot \<Rightarrow> nat" where
  "slot_total todos sl = total (slot_stats (timeSlotCount todos) sl)"


section \<open>The calendar: day numbers follow calendar order\<close>

lemma div_succ_int:
  fixes a k :: int
  assumes "0 < k"
  shows "(a + 1) div k = (if a mod k = k - 1 then a div k + 1 else a div k)"
proof -
  have eq: "k * (a div k) + a mod k = a" by simp
  have r0: "0 \<le> a mod k" and r1: "a mod k < k" using assms by simp_all
  show ?thesis
  proof (cases "a mod k = k - 1")
    case True
    with eq have "k * (a div k) + (k - 1) = a" by simp
    then have "a + 1 = k * (a div k + 1) + 0" by (simp add: algebra_simps)
    then have "(a + 1) div k = a div k + 1"
      by (rule int_div_pos_eq) (use assms in simp_all)
    with True show ?thesis by simp
  next
    case False
    have "a + 1 = k * (a div k) + (a mod k + 1)" using eq by (simp add: algebra_simps)
    then have "(a + 1) div k = a div k"
      by (rule int_div_pos_eq) (use r0 r1 False in simp_all)
    with False show ?thesis by simp
  qed
qed

lemma century_is_fourth:
  fixes y :: int
  assumes "(y - 1901) mod 100 = 99"
  shows "(y - 1969) mod 4 = 3"
proof -
  have "y - 1901 = 100 * ((y - 1901) div 100) + (y - 1901) mod 100" by simp
  with assms have "y - 1969 = 4 * (25 * ((y - 1901) div 100) + 7) + 3" by simp
  then show ?thesis by (rule int_mod_pos_eq) simp_all
qed

lemma DayFromYear_Suc: "DayFromYear y + 365 \<le> DayFromYear (y + 1)"
proof -
  have a: "(y + 1 - 1969) div 4 = (if (y - 1969) mod 4 = 3 then (y - 1969) div 4 + 1 else (y - 1969) div 4)"
    using div_succ_int [of 4 "y - 1969"] by (simp add: algebra_simps)
  have b: "(y + 1 - 1901) div 100 = (if (y - 1901) mod 100 = 99 then (y - 1901) div 100 + 1 else (y - 1901) div 100)"
    using div_succ_int [of 100 "y - 1901"] by (simp add: algebra_simps)
  have c: "(y - 1601) div 400 \<le> (y + 1 - 1601) div 400"
    by (rule zdiv_mono1) simp_all
  show ?thesis
    unfolding DayFromYear_def using a b c century_is_fourth [of y]
    by (simp split: if_splits)
qed


lemma DayFromYear_mono_Suc: "DayFromYear y + 365 \<le> DayFromYear (y + 1 + int n)"
proof (induction n)
  case 0
  show ?case using DayFromYear_Suc [of y] by simp
next
  case (Suc n)
  have "DayFromYear (y + 1 + int n) + 365 \<le> DayFromYear (y + 1 + int n + 1)"
    by (rule DayFromYear_Suc)
  with Suc show ?case by (simp add: add.assoc)
qed

lemma DayFromYear_less:
  assumes "y1 < y2"
  shows "DayFromYear y1 + 365 \<le> DayFromYear y2"
proof -
  from assms have "y2 = y1 + 1 + int (nat (y2 - y1 - 1))" by simp
  then show ?thesis using DayFromYear_mono_Suc [of y1 "nat (y2 - y1 - 1)"] by simp
qed

lemma days_in_month_le: "days_in_month y m \<le> 31"
  by (simp add: days_in_month_def)

lemma days_before_month_nonneg: "0 \<le> days_before_month y m"
  by (simp add: days_before_month_def Let_def)

lemma days_before_month_step:
  assumes "1 \<le> m" "m \<le> 11"
  shows "days_before_month y (Suc m) = days_before_month y m + int (days_in_month y m)"
proof -
  from assms have "m = 1 \<or> m = 2 \<or> m = 3 \<or> m = 4 \<or> m = 5 \<or> m = 6 \<or> m = 7 \<or> m = 8 \<or>
    m = 9 \<or> m = 10 \<or> m = 11" by arith
  then show ?thesis
    by (elim disjE) (simp_all add: days_before_month_def days_in_month_def Let_def)
qed

lemma days_before_month_Suc_le: "days_before_month y m \<le> days_before_month y (Suc m)"
proof -
  have "m = 0 \<or> m = 1 \<or> m = 2 \<or> m = 3 \<or> m = 4 \<or> m = 5 \<or> m = 6 \<or> m = 7 \<or> m = 8 \<or>
    m = 9 \<or> m = 10 \<or> m = 11 \<or> 12 \<le> m" by arith
  then show ?thesis
    by (elim disjE) (simp_all add: days_before_month_def Let_def)
qed

lemma days_before_month_mono:
  assumes "m \<le> m'"
  shows "days_before_month y m \<le> days_before_month y m'"
  using assms by (rule lift_Suc_mono_le [of "days_before_month y", rotated]) (rule days_before_month_Suc_le)

lemma day_within_year:
  assumes "1 \<le> m" "m \<le> 12" "d \<le> days_in_month y m"
  shows "days_before_month y m + int d \<le> 366"
proof -
  from assms(1,2) have "m = 1 \<or> m = 2 \<or> m = 3 \<or> m = 4 \<or> m = 5 \<or> m = 6 \<or> m = 7 \<or> m = 8 \<or>
    m = 9 \<or> m = 10 \<or> m = 11 \<or> m = 12" by arith
  then show ?thesis using assms(3)
    by (elim disjE) (simp_all add: days_before_month_def days_in_month_def Let_def split: if_splits)
qed

lemma MakeDay_mono:
  assumes "1 \<le> m1" "m1 \<le> 12" "1 \<le> d1" "d1 \<le> days_in_month y1 m1"
    and "1 \<le> m2" "m2 \<le> 12" "1 \<le> d2"
    and "y1 < y2 \<or> (y1 = y2 \<and> (m1 < m2 \<or> (m1 = m2 \<and> d1 \<le> d2)))"
  shows "MakeDay y1 m1 d1 \<le> MakeDay y2 m2 d2"
proof -
  consider (year) "y1 < y2" | (month) "y1 = y2" "m1 < m2" | (day) "y1 = y2" "m1 = m2" "d1 \<le> d2"
    using assms(8) by blast
  then show ?thesis
  proof cases
    case year
    have "MakeDay y1 m1 d1 \<le> DayFromYear y1 + 365"
      using day_within_year [OF assms(1,2,4)] by (simp add: MakeDay_def)
    also have "\<dots> \<le> DayFromYear y2" using year by (rule DayFromYear_less)
    also have "\<dots> \<le> MakeDay y2 m2 d2"
      using days_before_month_nonneg [of y2 m2] assms(7) by (simp add: MakeDay_def)
    finally show ?thesis .
  next
    case month
    from month(2) assms(6) have m11: "m1 \<le> 11" by simp
    have "days_before_month y1 m1 + int d1 \<le> days_before_month y1 (Suc m1)"
      using days_before_month_step [OF assms(1) m11, of y1] assms(4) by simp
    also have "\<dots> \<le> days_before_month y1 m2"
      using month(2) by (intro days_before_month_mono) simp
    finally show ?thesis using month(1) assms(7) by (simp add: MakeDay_def)
  next
    case day
    then show ?thesis by (simp add: MakeDay_def)
  qed
qed

lemma real_date_new_Date:
  "real_date s \<Longrightarrow> new_Date s = Some (MakeDay (year_of s) (month_of s) (day_of s))"
  using days_in_month_le [of "year_of s" "month_of s"]
  by (simp add: real_date_def new_Date_def)

lemma not_before_MakeDay:
  assumes "real_date a" "real_date b" "\<not> date_before a b"
  shows "MakeDay (year_of b) (month_of b) (day_of b) \<le> MakeDay (year_of a) (month_of a) (day_of a)"
proof (rule MakeDay_mono)
  show "year_of b < year_of a \<or>
    (year_of b = year_of a \<and> (month_of b < month_of a \<or> (month_of b = month_of a \<and> day_of b \<le> day_of a)))"
    using assms(3) unfolding date_before_def by auto
qed (use assms(1,2) in \<open>simp_all add: real_date_def\<close>)



section \<open>Properties of the normalizer\<close>

subsection \<open>The repair pass on a valid draft\<close>

lemma strict_HHMM_timeRegex: "strict_HHMM t \<Longrightarrow> timeRegex_test t"
  by (auto simp: strict_HHMM_def timeRegex_test_def split: list.splits)

lemma repair_title_valid:
  assumes "t \<noteq> []" "trim t = t" "length t \<le> 200"
  shows "repair_title (Some t) = t"
  using assms by (simp add: repair_title_def Let_def)

lemma repair_due_date_valid:
  assumes "real_date today" "real_date s" "\<not> date_before s today"
  shows "repair_due_date today (Some s) = s"
proof -
  have "dateRegex_test s" using assms(2) by (simp add: real_date_def)
  then have "s \<noteq> []" by (auto simp: dateRegex_test_def)
  then show ?thesis
    using not_before_MakeDay [OF assms(2,1,3)] real_date_new_Date [OF assms(1)]
      real_date_new_Date [OF assms(2)] \<open>dateRegex_test s\<close>
    by (simp add: repair_due_date_def Let_def)
qed

lemma repair_due_time_valid:
  assumes "strict_HHMM t"
  shows "repair_due_time (Some t) = t"
proof -
  have "timeRegex_test t" using assms by (rule strict_HHMM_timeRegex)
  moreover from assms have "t \<noteq> []" by (auto simp: strict_HHMM_def)
  ultimately show ?thesis by (simp add: repair_due_time_def)
qed

lemma repair_description_valid:
  assumes "case de of None \<Rightarrow> True | Some x \<Rightarrow> trim x = x \<and> length x \<le> 1000"
  shows "repair_description de = de"
  using assms by (auto simp: repair_description_def Let_def split: option.splits)

text \<open>
  Claim C4. The repair pass leaves an already valid draft unchanged: a non-empty trimmed
  title of at most 200 code units, a due date that is a real calendar date not before the
  reference date, a due time of the strict form \<open>HH:MM\<close>, a priority, a category list,
  and a description, if any, that is trimmed and at most 1000 code units long.\<close>

theorem C4_valid_draft_unchanged:
  assumes "real_date today" "valid_draft today d"
  shows "repair today d = d"
proof -
  from assms(2) obtain t s tm p c where
    f: "title d = Some t" "due_date d = Some s" "due_time d = Some tm"
       "priority d = Some p" "category d = Some c"
    and v: "t \<noteq> []" "trim t = t" "length t \<le> 200" "real_date s" "\<not> date_before s today"
       "strict_HHMM tm"
    and de: "case description d of None \<Rightarrow> True | Some x \<Rightarrow> trim x = x \<and> length x \<le> 1000"
    by (auto simp: valid_draft_def split: option.splits)
  have "title (repair today d) = title d"
    using f(1) repair_title_valid [OF v(1,2,3)] by (simp add: repair_def)
  moreover have "due_date (repair today d) = due_date d"
    using f(2) repair_due_date_valid [OF assms(1) v(4,5)] by (simp add: repair_def)
  moreover have "due_time (repair today d) = due_time d"
    using f(3) repair_due_time_valid [OF v(6)] by (simp add: repair_def)
  moreover have "description (repair today d) = description d"
    using repair_description_valid [OF de] by (simp add: repair_def)
  moreover have "priority (repair today d) = priority d" "category (repair today d) = category d"
    using f(4,5) by (simp_all add: repair_def)
  ultimately show ?thesis by simp
qed

lemma real_date_example: "real_date (ascii ''2025-06-01'')"
  by (simp add: real_date_def ascii_def dateRegex_test_def month_of_def day_of_def
      year_of_def digits_val_def days_in_month_def is_digit_def)

lemma valid_example_draft: "valid_draft (ascii ''2025-06-01'') example_draft"
  by (simp add: valid_draft_def example_draft_def real_date_def date_before_def strict_HHMM_def
      ascii_def dateRegex_test_def month_of_def day_of_def year_of_def digits_val_def
      days_in_month_def is_digit_def trim_def is_ws_def)

theorem C4_witness:
  "real_date (ascii ''2025-06-01'') \<and> valid_draft (ascii ''2025-06-01'') example_draft \<and>
   repair (ascii ''2025-06-01'') example_draft = example_draft"
  using real_date_example valid_example_draft
    C4_valid_draft_unchanged [OF real_date_example valid_example_draft]
  by simp



subsection \<open>Rejected input\<close>

lemma validateInput_invalid:
  assumes "\<not> is_string input \<or> input = JStr [] \<or>
           (\<exists>s. input = JStr s \<and> (length (trim s) < 2 \<or> length (trim s) > 500))"
  shows "\<not> valid (validateInput input) \<and> v_status (validateInput input) = Some 400 \<and>
         v_error (validateInput input) \<noteq> None"
  using assms by (cases input) (auto simp: Let_def)

text \<open>
  Claim C2. An input that is not a string, is empty, or whose trimmed length is below 2 or
  above 500 is answered with status 400 and \<open>success: false\<close>, and the completion service
  is not called.\<close>

theorem C2_invalid_input_rejected:
  assumes "\<not> is_string input \<or> input = JStr [] \<or>
           (\<exists>s. input = JStr s \<and> (length (trim s) < 2 \<or> length (trim s) > 500))"
  shows "\<exists>m. POST_generate_todo input apiKey today svc = (Failure 400 (Some False) (Some m), [])"
proof -
  from validateInput_invalid [OF assms]
  obtain m where "\<not> valid (validateInput input)" "v_status (validateInput input) = Some 400"
    "v_error (validateInput input) = Some m" by auto
  then show ?thesis
    unfolding POST_generate_todo_def by (simp add: Let_def del: validateInput.simps)
qed

theorem C2_witness:
  "length (trim (ascii '' a '')) < 2 \<and>
   (\<exists>m. POST_generate_todo (JStr (ascii '' a '')) (Some (ascii ''key'')) (ascii ''2025-06-01'')
      (\<lambda>_. Returns JNull) = (Failure 400 (Some False) (Some m), []))"
proof -
  have h: "length (trim (ascii '' a '')) < 2"
    by (simp add: trim_def ascii_def is_ws_def)
  then show ?thesis
    using C2_invalid_input_rejected [of "JStr (ascii '' a '')" "Some (ascii ''key'')"
        "ascii ''2025-06-01''" "\<lambda>_. Returns JNull"]
    by blast
qed


subsection \<open>Dates and times that the repair pass lets through\<close>

text \<open>What the repair pass does guarantee. With a reference date that \<open>new Date\<close>
  accepts, the due date of the draft has the form \<open>YYYY-MM-DD\<close>, is accepted by
  \<open>new Date\<close>, and its day is not before the reference day; an answer that is missing,
  malformed, not accepted or earlier is replaced by the reference date.\<close>

lemma new_Date_dateRegex: "new_Date s = Some p \<Longrightarrow> dateRegex_test s"
  by (simp add: new_Date_def split: if_splits)

lemma repair_due_date_accepted:
  assumes "new_Date today = Some td"
  shows "dateRegex_test (repair_due_date today d) \<and>
         (\<exists>p. new_Date (repair_due_date today d) = Some p \<and> td \<le> p)"
  using assms new_Date_dateRegex [OF assms]
  by (auto simp: repair_due_date_def Let_def split: option.splits)

lemma repair_due_date_replaced:
  assumes "d = None \<or> d = Some [] \<or>
           (\<exists>s. d = Some s \<and>
              (\<not> dateRegex_test s \<or> new_Date s = None \<or>
               (\<exists>p td. new_Date s = Some p \<and> new_Date today = Some td \<and> p < td)))"
  shows "repair_due_date today d = today"
  using assms by (auto simp: repair_due_date_def Let_def split: option.splits)

text \<open>The due time of the draft matches \<open>timeRegex\<close>, and an answer that is absent or
  does not match it becomes 09:00.\<close>

lemma repair_due_time_matches: "timeRegex_test (repair_due_time t)"
  by (auto simp: repair_due_time_def timeRegex_test_def ascii_def is_digit_def split: option.splits)

lemma repair_due_time_default:
  assumes "t = None \<or> (\<exists>s. t = Some s \<and> \<not> timeRegex_test s)"
  shows "repair_due_time t = ascii ''09:00''"
  using assms by (auto simp: repair_due_time_def)

lemma valid_pay_rent: "valid (validateInput (JStr (ascii ''pay rent'')))"
  by (simp add: ascii_def trim_def is_ws_def)

lemma POST_generate_todo_answer:
  assumes "valid (validateInput (JStr input))" "todoSchema v = Some d"
  shows "fst (POST_generate_todo (JStr input) (Some (ascii ''key'')) today (\<lambda>_. Returns v)) =
         Success (repair today d)"
  using assms unfolding POST_generate_todo_def
  by (simp add: Let_def generateObject_def ascii_def del: validateInput.simps)

lemma repair_title_pay_rent: "repair_title (Some (ascii ''pay rent'')) = ascii ''pay rent''"
  by (simp add: repair_title_def ascii_def trim_def is_ws_def)

lemma repair_due_time_ten: "repair_due_time (Some (ascii ''10:00'')) = ascii ''10:00''"
  by (simp add: repair_due_time_def ascii_def timeRegex_test_def is_digit_def)

lemma repair_due_date_june2:
  "repair_due_date (ascii ''2025-06-01'') (Some (ascii ''2025-06-02'')) = ascii ''2025-06-02''"
  by (simp add: repair_due_date_def ascii_def dateRegex_test_def new_Date_def month_of_def
      day_of_def year_of_def digits_val_def MakeDay_def DayFromYear_def days_before_month_def
      is_leap_def is_digit_def)

lemma todoSchema_day_overflow:
  "todoSchema answer_day_overflow =
     Some \<lparr>title = Some (ascii ''pay rent''), description = None,
           due_date = Some (ascii ''2099-02-30''), due_time = Some (ascii ''10:00''),
           priority = Some Medium, category = Some [personal_label]\<rparr>"
  by (simp add: answer_day_overflow_def field_def ascii_def z_enum_priority_def personal_label_def)

lemma repair_due_date_day_overflow:
  "repair_due_date (ascii ''2025-06-01'') (Some (ascii ''2099-02-30'')) = ascii ''2099-02-30''"
  by (simp add: repair_due_date_def ascii_def dateRegex_test_def new_Date_def month_of_def
      day_of_def year_of_def digits_val_def MakeDay_def DayFromYear_def days_before_month_def
      is_leap_def is_digit_def)

text \<open>
  Claim C1 says that the due date of every draft is a real calendar date. The handler
  keeps the answer 2099-02-30: it has the form \<open>YYYY-MM-DD\<close>, \<open>new Date\<close> accepts it (as
  2 March 2099), and that day is not before the reference date.\<close>

theorem C1_day_overflow_kept:
  "fst (POST_generate_todo (JStr (ascii ''pay rent'')) (Some (ascii ''key'')) (ascii ''2025-06-01'')
         (\<lambda>_. Returns answer_day_overflow)) =
     Success \<lparr>title = Some (ascii ''pay rent''), description = None,
              due_date = Some (ascii ''2099-02-30''), due_time = Some (ascii ''10:00''),
              priority = Some Medium, category = Some [personal_label]\<rparr> \<and>
   \<not> real_date (ascii ''2099-02-30'')"
proof -
  have "\<not> real_date (ascii ''2099-02-30'')"
    by (simp add: real_date_def ascii_def dateRegex_test_def month_of_def day_of_def
        year_of_def digits_val_def days_in_month_def is_leap_def is_digit_def)
  then show ?thesis
    using POST_generate_todo_answer [OF valid_pay_rent todoSchema_day_overflow]
      repair_title_pay_rent repair_due_time_ten repair_due_date_day_overflow
    by (simp add: repair_def repair_description_def)
qed

lemma todoSchema_short_hour:
  "todoSchema answer_short_hour =
     Some \<lparr>title = Some (ascii ''pay rent''), description = None,
           due_date = Some (ascii ''2025-06-02''), due_time = Some (ascii ''9:30''),
           priority = Some Medium, category = Some [personal_label]\<rparr>"
  by (simp add: answer_short_hour_def field_def ascii_def z_enum_priority_def personal_label_def)

lemma repair_due_time_short_hour: "repair_due_time (Some (ascii ''9:30'')) = ascii ''9:30''"
  by (simp add: repair_due_time_def ascii_def timeRegex_test_def is_digit_def)

text \<open>
  Claim C3 says that the due time of every draft has the strict two-digit form and that
  any other answer becomes 09:00. The handler keeps the answer 9:30: \<open>timeRegex\<close> makes
  the first digit of the hour optional.\<close>

theorem C3_one_digit_hour_kept:
  "fst (POST_generate_todo (JStr (ascii ''pay rent'')) (Some (ascii ''key'')) (ascii ''2025-06-01'')
         (\<lambda>_. Returns answer_short_hour)) =
     Success \<lparr>title = Some (ascii ''pay rent''), description = None,
              due_date = Some (ascii ''2025-06-02''), due_time = Some (ascii ''9:30''),
              priority = Some Medium, category = Some [personal_label]\<rparr> \<and>
   \<not> strict_HHMM (ascii ''9:30'') \<and> ascii ''9:30'' \<noteq> ascii ''09:00''"
proof -
  have "\<not> strict_HHMM (ascii ''9:30'')" "ascii ''9:30'' \<noteq> ascii ''09:00''"
    by (simp_all add: strict_HHMM_def ascii_def)
  then show ?thesis
    using POST_generate_todo_answer [OF valid_pay_rent todoSchema_short_hour]
      repair_title_pay_rent repair_due_time_short_hour repair_due_date_june2
    by (simp add: repair_def repair_description_def)
qed

subsection \<open>The category of a draft\<close>

lemma generate_catch_no_object:
  "generate_catch no_object_generated = Failure 500 (Some False) (Some Generation_failed)"
  by (simp add: generate_catch_def msg_includes_def no_object_generated_def ascii_def)

lemma todoSchema_bad_category:
  "z_string_array_default (field obj ''category'') = None \<Longrightarrow> todoSchema (JObj obj) = None"
  by (simp add: bind_eq_None_conv)

lemma POST_generate_todo_schema_failure:
  assumes "valid (validateInput input)" "apiKey \<noteq> None" "apiKey \<noteq> Some []"
    and "todoSchema v = None"
  shows "POST_generate_todo input apiKey today (\<lambda>_. Returns v) =
         (Failure 500 (Some False) (Some Generation_failed),
          [preprocessInput (case input of JStr s \<Rightarrow> s | _ \<Rightarrow> [])])"
proof -
  from assms(1) obtain s where "input = JStr s"
    by (cases input) (auto split: if_splits)
  then show ?thesis
    using assms generate_catch_no_object unfolding POST_generate_todo_def
    by (simp add: Let_def generateObject_def del: validateInput.simps)
qed

lemma category_string_rejected:
  "z_string_array_default (field answer_category_string ''category'') = None"
  by (simp add: answer_category_string_def field_def ascii_def)

text \<open>An answer whose category is present and is not a list of strings fails the schema:
  the handler responds with a failure (status 500, \<open>success: false\<close>) and no draft.\<close>

lemma category_not_a_list_gives_no_draft:
  assumes "valid (validateInput input)" "apiKey \<noteq> None" "apiKey \<noteq> Some []"
    and "z_string_array_default (field obj ''category'') = None"
  shows "fst (POST_generate_todo input apiKey today (\<lambda>_. Returns (JObj obj))) =
           Failure 500 (Some False) (Some Generation_failed)"
  using POST_generate_todo_schema_failure [OF assms(1,2,3) todoSchema_bad_category [OF assms(4)]]
  by simp

lemma category_string_gives_no_draft:
  "fst (POST_generate_todo (JStr (ascii ''pay rent'')) (Some (ascii ''key'')) (ascii ''2025-06-01'')
          (\<lambda>_. Returns (JObj answer_category_string))) =
     Failure 500 (Some False) (Some Generation_failed)"
  using POST_generate_todo_schema_failure [OF valid_pay_rent _ _
      todoSchema_bad_category [OF category_string_rejected], of "Some (ascii ''key'')"]
  by (simp add: ascii_def)

text \<open>A draft that passed the schema has a category: the list of the answer, or the
  schema's default, the empty list, where the answer has none. The repair pass keeps it,
  so its own default, the personal label, is never applied.\<close>

lemma todoSchema_category:
  assumes "todoSchema (JObj obj) = Some d"
  shows "z_string_array_default (field obj ''category'') = category d \<and> category d \<noteq> None"
  using assms by (auto simp: bind_eq_Some_conv)

lemma repair_keeps_schema_category:
  assumes "todoSchema (JObj obj) = Some d"
  shows "category (repair today d) = category d"
  using todoSchema_category [OF assms] by (auto simp: repair_def)

lemma omitted_category_gives_empty:
  assumes "todoSchema (JObj obj) = Some d" "field obj ''category'' = JUndefined"
  shows "category (repair today d) = Some []"
  using repair_keeps_schema_category [OF assms(1), of today] todoSchema_category [OF assms(1)]
    assms(2)
  by simp

text \<open>
  Claim C5 says that a run in which the completion service leaves the category out (or
  returns something that is not a list of strings) ends with the category that holds
  exactly the personal label. For an answer without a category the handler returns a
  draft whose category is the empty list: the schema's default \<open>[]\<close> fills the field in
  before the repair pass, whose test for a missing category then never holds.\<close>

theorem C5_omitted_category_stays_empty:
  "fst (POST_generate_todo (JStr (ascii ''pay rent'')) (Some (ascii ''key'')) (ascii ''2025-06-01'')
         (\<lambda>_. Returns answer_no_category)) =
     Success \<lparr>title = Some (ascii ''pay rent''), description = None,
              due_date = Some (ascii ''2025-06-02''), due_time = Some (ascii ''10:00''),
              priority = Some Medium, category = Some []\<rparr> \<and>
   [] \<noteq> [personal_label]"
proof -
  have "todoSchema answer_no_category =
     Some \<lparr>title = Some (ascii ''pay rent''), description = None,
           due_date = Some (ascii ''2025-06-02''), due_time = Some (ascii ''10:00''),
           priority = Some Medium, category = Some []\<rparr>"
    by (simp add: answer_no_category_def field_def ascii_def z_enum_priority_def)
  from POST_generate_todo_answer [OF valid_pay_rent this] show ?thesis
    using repair_title_pay_rent repair_due_time_ten repair_due_date_june2
    by (simp add: repair_def repair_description_def)
qed


section \<open>Properties of the summarizer\<close>

subsection \<open>Rejected requests\<close>

text \<open>
  Claim C8. A request whose task list is absent or not a list, or whose period is not
  \<open>"today"\<close> or \<open>"week"\<close>, is answered with status 400 and \<open>success: false\<close>, and the
  completion service is not called.\<close>

theorem C8_invalid_request_rejected:
  assumes "todos = JUndefined \<or> \<not> isArray todos \<or>
           (period \<noteq> JStr (ascii ''today'') \<and> period \<noteq> JStr (ascii ''week''))"
  shows "\<exists>m. POST_analyze_todos read_todo todos period apiKey svc =
              (Failure 400 (Some False) (Some m), [])"
  using assms unfolding POST_analyze_todos_def by auto

theorem C8_witness:
  "JStr (ascii ''tomorrow'') \<noteq> JStr (ascii ''today'') \<and>
   JStr (ascii ''tomorrow'') \<noteq> JStr (ascii ''week'') \<and>
   (\<exists>m. POST_analyze_todos (\<lambda>_. morning_task) (JArr []) (JStr (ascii ''tomorrow''))
          (Some (ascii ''key'')) (\<lambda>_ _ _. Returns answer_analysis) =
        (Failure 400 (Some False) (Some m), []))"
proof -
  have h: "JStr (ascii ''tomorrow'') \<noteq> JStr (ascii ''today'') \<and>
           JStr (ascii ''tomorrow'') \<noteq> JStr (ascii ''week'')"
    by (simp add: ascii_def)
  then show ?thesis
    using C8_invalid_request_rejected [of "JArr []" "JStr (ascii ''tomorrow'')"
        "\<lambda>_. morning_task" "Some (ascii ''key'')" "\<lambda>_ _ _. Returns answer_analysis"]
    by blast
qed

subsection \<open>The empty task list\<close>

lemma analysisSchema_answer:
  "analysisSchema answer_analysis =
     Some \<lparr>summary = ascii ''nothing yet'', urgentTasks = [], insights = [],
           recommendations = []\<rparr>"
  by (simp add: answer_analysis_def field_def ascii_def)

text \<open>
  Claim C9 says that the summarizer, given an empty task list and a recognized period,
  reports that there is nothing to analyse and does not call the completion service. The
  route handler accepts the empty list (an empty array is truthy and is an array), calls
  the service and returns its analysis.\<close>

theorem C9_counterexample:
  "POST_analyze_todos (\<lambda>_. morning_task) (JArr []) (JStr (ascii ''today'')) (Some (ascii ''key''))
     (\<lambda>_ _ _. Returns answer_analysis) =
   (Success \<lparr>summary = ascii ''nothing yet'', urgentTasks = [], insights = [],
             recommendations = []\<rparr>, [[]])"
  using analysisSchema_answer
  by (simp add: POST_analyze_todos_def generateObject_def ascii_def)

lemma analyze_catch_failure:
  "\<exists>st m. analyze_catch e = Failure st (Some False) (Some m) \<and> (st = 500 \<or> st = 429) \<and>
          m \<noteq> Nothing_to_analyze"
  by (simp add: analyze_catch_def)

lemma POST_analyze_todos_empty:
  assumes "apiKey \<noteq> None" "apiKey \<noteq> Some []"
    and "period = JStr (ascii ''today'') \<or> period = JStr (ascii ''week'')"
  shows "POST_analyze_todos read_todo (JArr []) period apiKey svc =
           (case generateObject analysisSchema (svc (compute_statistics []) [] period) of
              Inl e \<Rightarrow> analyze_catch e
            | Inr a \<Rightarrow> Success a, [[]])"
proof -
  have "ascii ''today'' \<noteq> []" "ascii ''week'' \<noteq> []" by (simp_all add: ascii_def)
  then show ?thesis
    using assms by (auto simp: POST_analyze_todos_def split: sum.splits)
qed

text \<open>
  Claim C9, amended. The guard for the empty list is in the caller on the page: when no
  task of the page falls due in the selected period, \<open>handleAnalyzeTodos\<close> reports that
  there is nothing to analyse and sends no request to the summarizer route, so the
  completion service is not reached. The route handler itself, given the empty list, a
  recognized period and a configured API key, calls the completion service once; it
  responds with the service's analysis when the answer fits the schema, and with a
  service failure (status 500 or 429, \<open>success: false\<close>, never the nothing-to-analyse
  message) when the service throws or its answer does not fit the schema.\<close>

theorem C9_nothing_to_analyze_on_page:
  "(filterTodos p now todos = [] \<longrightarrow>
      handleAnalyzeTodos todos p now fetch =
        (\<lparr>analysisError = Some Nothing_to_analyze, analysisResult = None\<rparr>, [])) \<and>
   (apiKey \<noteq> None \<and> apiKey \<noteq> Some [] \<and>
    (period = JStr (ascii ''today'') \<or> period = JStr (ascii ''week'')) \<longrightarrow>
      snd (POST_analyze_todos read_todo (JArr []) period apiKey svc) = [[]] \<and>
      (\<forall>v a. svc (compute_statistics []) [] period = Returns v \<and> analysisSchema v = Some a \<longrightarrow>
         fst (POST_analyze_todos read_todo (JArr []) period apiKey svc) = Success a) \<and>
      ((\<exists>e. svc (compute_statistics []) [] period = Throws e) \<or>
       (\<exists>v. svc (compute_statistics []) [] period = Returns v \<and> analysisSchema v = None) \<longrightarrow>
         (\<exists>st m. fst (POST_analyze_todos read_todo (JArr []) period apiKey svc) =
                   Failure st (Some False) (Some m) \<and>
                 (st = 500 \<or> st = 429) \<and> m \<noteq> Nothing_to_analyze)))"
proof (intro conjI impI)
  assume "filterTodos p now todos = []"
  then show "handleAnalyzeTodos todos p now fetch =
        (\<lparr>analysisError = Some Nothing_to_analyze, analysisResult = None\<rparr>, [])"
    by (simp add: handleAnalyzeTodos_def)
next
  assume k: "apiKey \<noteq> None \<and> apiKey \<noteq> Some [] \<and>
    (period = JStr (ascii ''today'') \<or> period = JStr (ascii ''week''))"
  then have eq: "POST_analyze_todos read_todo (JArr []) period apiKey svc =
           (case generateObject analysisSchema (svc (compute_statistics []) [] period) of
              Inl e \<Rightarrow> analyze_catch e
            | Inr a \<Rightarrow> Success a, [[]])"
    by (intro POST_analyze_todos_empty) simp_all
  show "snd (POST_analyze_todos read_todo (JArr []) period apiKey svc) = [[]]"
    by (simp add: eq)
  show "\<forall>v a. svc (compute_statistics []) [] period = Returns v \<and> analysisSchema v = Some a \<longrightarrow>
         fst (POST_analyze_todos read_todo (JArr []) period apiKey svc) = Success a"
    by (simp add: eq generateObject_def)
  assume "(\<exists>e. svc (compute_statistics []) [] period = Throws e) \<or>
       (\<exists>v. svc (compute_statistics []) [] period = Returns v \<and> analysisSchema v = None)"
  then obtain e where "generateObject analysisSchema (svc (compute_statistics []) [] period) = Inl e"
    by (auto simp: generateObject_def)
  then have "fst (POST_analyze_todos read_todo (JArr []) period apiKey svc) = analyze_catch e"
    by (simp add: eq)
  then show "\<exists>st m. fst (POST_analyze_todos read_todo (JArr []) period apiKey svc) =
                   Failure st (Some False) (Some m) \<and>
                 (st = 500 \<or> st = 429) \<and> m \<noteq> Nothing_to_analyze"
    using analyze_catch_failure [of e] by simp
qed

theorem C9_witness:
  "filterTodos Today 0 [undated_task] = [] \<and>
   handleAnalyzeTodos [undated_task] Today 0 (\<lambda>_ _. Failure 500 (Some False) None) =
     (\<lparr>analysisError = Some Nothing_to_analyze, analysisResult = None\<rparr>, []) \<and>
   snd (POST_analyze_todos (\<lambda>_. morning_task) (JArr []) (JStr (ascii ''today''))
          (Some (ascii ''key'')) (\<lambda>_ _ _. Returns answer_analysis)) = [[]] \<and>
   fst (POST_analyze_todos (\<lambda>_. morning_task) (JArr []) (JStr (ascii ''today''))
          (Some (ascii ''key'')) (\<lambda>_ _ _. Returns answer_analysis)) =
     Success \<lparr>summary = ascii ''nothing yet'', urgentTasks = [], insights = [],
              recommendations = []\<rparr> \<and>
   (\<exists>st m. fst (POST_analyze_todos (\<lambda>_. morning_task) (JArr []) (JStr (ascii ''today''))
                 (Some (ascii ''key'')) (\<lambda>_ _ _. Returns JNull)) =
             Failure st (Some False) (Some m) \<and> (st = 500 \<or> st = 429) \<and> m \<noteq> Nothing_to_analyze)"
proof -
  have h: "filterTodos Today 0 [undated_task] = []"
    by (simp add: filterTodos_def due_within_def undated_task_def)
  have k: "Some (ascii ''key'') \<noteq> None \<and> Some (ascii ''key'') \<noteq> Some []"
    by (simp add: ascii_def)
  have n: "analysisSchema JNull = None" by simp
  show ?thesis
    using h k n analysisSchema_answer
      C9_nothing_to_analyze_on_page [of Today 0 "[undated_task]"
        "\<lambda>_ _. Failure 500 (Some False) None" "Some (ascii ''key'')" "JStr (ascii ''today'')"
        "\<lambda>_. morning_task" "\<lambda>_ _ _. Returns answer_analysis"]
      C9_nothing_to_analyze_on_page [of Today 0 "[undated_task]"
        "\<lambda>_ _. Failure 500 (Some False) None" "Some (ascii ''key'')" "JStr (ascii ''today'')"
        "\<lambda>_. morning_task" "\<lambda>_ _ _. Returns JNull"]
    by simp
qed

subsection \<open>Counts and the completion rate\<close>

lemma completedTasks_bounds: "0 \<le> completedTasks todos \<and> completedTasks todos \<le> totalTasks todos"
  by (simp add: completedTasks_def totalTasks_def)

text \<open>
  Claim C6. For every task list the handler's statistics satisfy
  completed + incomplete = total and 0 \<le> completion rate \<le> 100, and the rate is 0 when
  the list is empty.\<close>

theorem C6_statistics_consistent:
  "st_completedTasks (compute_statistics todos) + st_incompleteTasks (compute_statistics todos) =
     st_totalTasks (compute_statistics todos) \<and>
   0 \<le> st_completionRate (compute_statistics todos) \<and>
   st_completionRate (compute_statistics todos) \<le> 100 \<and>
   (st_totalTasks (compute_statistics todos) = 0 \<longrightarrow>
      st_completionRate (compute_statistics todos) = 0)"
proof -
  have sum: "completedTasks todos + incompleteTasks todos = totalTasks todos"
    by (simp add: incompleteTasks_def)
  have lo: "0 \<le> completionRate todos"
    using completedTasks_bounds [of todos] by (simp add: completionRate_def)
  have hi: "completionRate todos \<le> 100"
  proof (cases "totalTasks todos > 0")
    case True
    define q where "q = (of_int (completedTasks todos) :: rat) / of_int (totalTasks todos)"
    have "(of_int (completedTasks todos) :: rat) \<le> of_int (totalTasks todos)"
      using completedTasks_bounds [of todos] by simp
    moreover have "(0 :: rat) < of_int (totalTasks todos)" using True by simp
    ultimately have "q \<le> 1" unfolding q_def by (simp add: pos_divide_le_eq)
    then have "q * 100 \<le> 100" by simp
    moreover have "completionRate todos = q * 100"
      using True unfolding completionRate_def q_def by simp
    ultimately show ?thesis by simp
  next
    case False
    then show ?thesis by (simp add: completionRate_def)
  qed
  have zero: "totalTasks todos = 0 \<longrightarrow> completionRate todos = 0"
    by (simp add: completionRate_def)
  from sum lo hi zero show ?thesis by (simp add: compute_statistics_def)
qed

theorem C6_witness:
  "st_totalTasks (compute_statistics []) = 0 \<and> st_completionRate (compute_statistics []) = 0 \<and>
   st_completedTasks (compute_statistics [morning_task, undated_task]) +
     st_incompleteTasks (compute_statistics [morning_task, undated_task]) = 2 \<and>
   st_completionRate (compute_statistics [morning_task, undated_task]) = 50"
proof -
  have t0: "st_totalTasks (compute_statistics []) = 0"
    by (simp add: compute_statistics_def totalTasks_def)
  have t2: "st_totalTasks (compute_statistics [morning_task, undated_task]) = 2"
    by (simp add: compute_statistics_def totalTasks_def)
  have r2: "st_completionRate (compute_statistics [morning_task, undated_task]) = 50"
    by (simp add: compute_statistics_def completionRate_def totalTasks_def completedTasks_def
        morning_task_def undated_task_def)
  show ?thesis
    using t0 t2 r2 C6_statistics_consistent [of "[]"]
      C6_statistics_consistent [of "[morning_task, undated_task]"]
    by simp
qed

subsection \<open>Time slots\<close>

lemma bump_keys: "map fst (bump sl b tsc) = map fst tsc"
  by (induction tsc) (auto simp: bump_def)

lemma timeSlot_step_keys: "map fst (timeSlot_step tsc todo) = map fst tsc"
  by (simp add: timeSlot_step_def bump_keys split: option.splits)

lemma timeSlot_fold_keys: "map fst (foldl timeSlot_step tsc todos) = map fst tsc"
  by (induction todos arbitrary: tsc) (simp_all add: timeSlot_step_keys)

lemma timeSlotCount_keys: "map fst (timeSlotCount todos) = [Morning, Afternoon, Evening]"
  by (simp add: timeSlotCount_def timeSlot_fold_keys timeSlotCount_init_def)

lemma timeSlotCount_shape:
  "\<exists>a b c. timeSlotCount todos = [(Morning, a), (Afternoon, b), (Evening, c)]"
proof -
  obtain tsc where tsc: "timeSlotCount todos = tsc" by simp
  have "map fst tsc = [Morning, Afternoon, Evening]"
    using timeSlotCount_keys [of todos] tsc by simp
  then have "\<exists>a b c. tsc = [(Morning, a), (Afternoon, b), (Evening, c)]"
    by (auto simp: map_eq_Cons_conv)
  with tsc show ?thesis by simp
qed

lemma map_of_bump:
  "map_of (bump sl b tsc) k =
     map_option (\<lambda>c. if k = sl
                       then \<lparr>total = total c + 1,
                             completed = (if b then completed c + 1 else completed c)\<rparr>
                       else c) (map_of tsc k)"
  by (induction tsc) (auto simp: bump_def)

lemma total_bump:
  assumes "k \<in> fst ` set tsc"
  shows "total (slot_stats (bump sl b tsc) k) =
         total (slot_stats tsc k) + (if k = sl then 1 else 0)"
proof -
  from assms obtain c where "map_of tsc k = Some c"
    by (metis domD dom_map_of_conv_image_fst)
  then show ?thesis by (simp add: slot_stats_def map_of_bump)
qed

lemma due_slot_step:
  assumes "k \<in> fst ` set tsc"
  shows "total (slot_stats (timeSlot_step tsc todo) k) =
         total (slot_stats tsc k) + (if due_slot todo = Some k then 1 else 0)"
proof (cases "todo_due_date todo")
  case None
  then show ?thesis by (simp add: timeSlot_step_def due_slot_def)
next
  case (Some d)
  have "due_slot todo = Some (slot_of_hour (getHours d))"
    using Some by (auto simp: due_slot_def slot_of_hour_def split: option.splits)
  then show ?thesis
    using Some total_bump [OF assms] by (auto simp: timeSlot_step_def)
qed

lemma timeSlot_fold_total:
  assumes "k \<in> fst ` set tsc"
  shows "total (slot_stats (foldl timeSlot_step tsc todos) k) =
         total (slot_stats tsc k) + length (filter (\<lambda>t. due_slot t = Some k) todos)"
  using assms
proof (induction todos arbitrary: tsc)
  case Nil
  then show ?case by simp
next
  case (Cons todo todos)
  have "k \<in> fst ` set (timeSlot_step tsc todo)"
    using Cons.prems timeSlot_step_keys [of tsc todo] by (metis set_map)
  from Cons.IH [OF this] due_slot_step [OF Cons.prems, of todo]
  show ?case by simp
qed

lemma slot_total_eq: "slot_total todos k = length (filter (\<lambda>t. due_slot t = Some k) todos)"
proof -
  have "k \<in> fst ` set timeSlotCount_init"
    by (cases k) (simp_all add: timeSlotCount_init_def)
  from timeSlot_fold_total [OF this, of todos] show ?thesis
    by (cases k) (simp_all add: slot_total_def timeSlotCount_def slot_stats_def timeSlotCount_init_def)
qed

lemma due_slot_partition:
  "length (filter (\<lambda>t. due_slot t = Some Morning) todos) +
   length (filter (\<lambda>t. due_slot t = Some Afternoon) todos) +
   length (filter (\<lambda>t. due_slot t = Some Evening) todos) =
   length (filter (\<lambda>t. todo_due_date t \<noteq> None) todos)"
proof (induction todos)
  case Nil
  then show ?case by simp
next
  case (Cons t todos)
  show ?case
  proof (cases "todo_due_date t")
    case None
    then show ?thesis using Cons by (simp add: due_slot_def)
  next
    case (Some d)
    then have "due_slot t \<noteq> None"
      by (simp add: due_slot_def split: option.splits)
    then obtain sl where "due_slot t = Some sl" by blast
    then show ?thesis using Cons Some by (cases sl) simp_all
  qed
qed

text \<open>
  Claim C10. The time-slot totals count exactly the tasks that have a due timestamp, each
  in the one slot of its due hour (before 12 morning, from 12 to before 18 afternoon,
  otherwise evening): the three totals add up to the number of tasks with a due
  timestamp, which is at most the number of tasks, and a task without one is in no
  slot.\<close>

theorem C10_time_slot_totals:
  "slot_total todos Morning = length (filter (\<lambda>t. due_slot t = Some Morning) todos) \<and>
   slot_total todos Afternoon = length (filter (\<lambda>t. due_slot t = Some Afternoon) todos) \<and>
   slot_total todos Evening = length (filter (\<lambda>t. due_slot t = Some Evening) todos) \<and>
   slot_total todos Morning + slot_total todos Afternoon + slot_total todos Evening =
     length (filter (\<lambda>t. todo_due_date t \<noteq> None) todos) \<and>
   length (filter (\<lambda>t. todo_due_date t \<noteq> None) todos) \<le> length todos \<and>
   (todo_due_date t = None \<longrightarrow> due_slot t = None)"
  using due_slot_partition [of todos]
  by (simp add: slot_total_eq due_slot_def)

theorem C10_witness:
  "todo_due_date undated_task = None \<and> due_slot undated_task = None \<and>
   slot_total [morning_task, undated_task, afternoon_task] Morning = 1 \<and>
   slot_total [morning_task, undated_task, afternoon_task] Afternoon = 1 \<and>
   slot_total [morning_task, undated_task, afternoon_task] Evening = 0 \<and>
   slot_total [morning_task, undated_task, afternoon_task] Morning +
     slot_total [morning_task, undated_task, afternoon_task] Afternoon +
     slot_total [morning_task, undated_task, afternoon_task] Evening <
     length [morning_task, undated_task, afternoon_task]"
proof -
  have d: "todo_due_date undated_task = None" by (simp add: undated_task_def)
  have s: "due_slot morning_task = Some Morning" "due_slot afternoon_task = Some Afternoon"
    by (simp_all add: due_slot_def morning_task_def afternoon_task_def msPerHour_def)
  show ?thesis
    using d s C10_time_slot_totals [of "[morning_task, undated_task, afternoon_task]" undated_task]
    by simp
qed

subsection \<open>The most productive time slot\<close>

lemma mostProductive_three:
  "mostProductiveTimeSlot [(Morning, a), (Afternoon, b), (Evening, c)] =
     (if slot_rate b \<le> slot_rate a \<and> slot_rate c \<le> slot_rate a then Some (Morning, slot_rate a)
      else if slot_rate c \<le> slot_rate b then Some (Afternoon, slot_rate b)
      else Some (Evening, slot_rate c))"
  by (simp add: mostProductiveTimeSlot_def sort_by_def)

lemma rate_of_three:
  assumes "timeSlotCount todos = [(Morning, a), (Afternoon, b), (Evening, c)]"
  shows "rate_of todos Morning = slot_rate a" "rate_of todos Afternoon = slot_rate b"
    "rate_of todos Evening = slot_rate c"
  using assms by (simp_all add: rate_of_def slot_stats_def)

text \<open>
  Claim C7. The most productive time slot is a function of the task list: it is a slot of
  the highest completion rate, and every slot before it in the order morning, afternoon,
  evening has a strictly lower rate, so among slots of equal rate the earlier one is
  picked.\<close>

theorem C7_most_productive_slot:
  "\<exists>sl. mostProductiveTimeSlot (timeSlotCount todos) = Some (sl, rate_of todos sl) \<and>
        (\<forall>k. rate_of todos k \<le> rate_of todos sl) \<and>
        (\<forall>k. slot_index k < slot_index sl \<longrightarrow> rate_of todos k < rate_of todos sl)"
proof -
  obtain a b c where shape: "timeSlotCount todos = [(Morning, a), (Afternoon, b), (Evening, c)]"
    using timeSlotCount_shape [of todos] by blast
  note r = rate_of_three [OF shape]
  consider (m) "slot_rate b \<le> slot_rate a" "slot_rate c \<le> slot_rate a"
    | (a) "\<not> (slot_rate b \<le> slot_rate a \<and> slot_rate c \<le> slot_rate a)" "slot_rate c \<le> slot_rate b"
    | (e) "\<not> (slot_rate b \<le> slot_rate a \<and> slot_rate c \<le> slot_rate a)" "\<not> slot_rate c \<le> slot_rate b"
    by blast
  then show ?thesis
  proof cases
    case m
    have "mostProductiveTimeSlot (timeSlotCount todos) = Some (Morning, rate_of todos Morning)"
      using m shape r by (simp add: mostProductive_three)
    moreover have "rate_of todos k \<le> rate_of todos Morning" for k
      using m r by (cases k) simp_all
    moreover have "slot_index k < slot_index Morning \<longrightarrow> rate_of todos k < rate_of todos Morning" for k
      by simp
    ultimately show ?thesis by blast
  next
    case a
    have "mostProductiveTimeSlot (timeSlotCount todos) = Some (Afternoon, rate_of todos Afternoon)"
      using a shape r by (simp add: mostProductive_three)
    moreover have "rate_of todos k \<le> rate_of todos Afternoon" for k
      using a r by (cases k) auto
    moreover have "slot_index k < slot_index Afternoon \<longrightarrow> rate_of todos k < rate_of todos Afternoon" for k
      using a r by (cases k) auto
    ultimately show ?thesis by blast
  next
    case e
    have "mostProductiveTimeSlot (timeSlotCount todos) = Some (Evening, rate_of todos Evening)"
      using e shape r by (simp add: mostProductive_three)
    moreover have "rate_of todos k \<le> rate_of todos Evening" for k
      using e r by (cases k) auto
    moreover have "slot_index k < slot_index Evening \<longrightarrow> rate_of todos k < rate_of todos Evening" for k
      using e r by (cases k) auto
    ultimately show ?thesis by blast
  qed
qed

lemma timeSlotCount_tie:
  "timeSlotCount [afternoon_task, undated_task, morning_task] =
     [(Morning, \<lparr>total = 1, completed = 1\<rparr>), (Afternoon, \<lparr>total = 1, completed = 1\<rparr>),
      (Evening, \<lparr>total = 0, completed = 0\<rparr>)]"
  by (simp add: timeSlotCount_def timeSlot_step_def timeSlotCount_init_def bump_def
      slot_of_hour_def morning_task_def afternoon_task_def undated_task_def msPerHour_def)

theorem C7_witness:
  "rate_of [afternoon_task, undated_task, morning_task] Morning = 100 \<and>
   rate_of [afternoon_task, undated_task, morning_task] Afternoon = 100 \<and>
   rate_of [afternoon_task, undated_task, morning_task] Evening = 0 \<and>
   mostProductiveTimeSlot (timeSlotCount [afternoon_task, undated_task, morning_task]) =
     Some (Morning, 100)"
proof -
  let ?ts = "[afternoon_task, undated_task, morning_task]"
  have r: "rate_of ?ts Morning = 100" "rate_of ?ts Afternoon = 100" "rate_of ?ts Evening = 0"
    using rate_of_three [OF timeSlotCount_tie] by (simp_all add: slot_rate_def)
  obtain sl where sl: "mostProductiveTimeSlot (timeSlotCount ?ts) = Some (sl, rate_of ?ts sl)"
    and best: "\<forall>k. rate_of ?ts k \<le> rate_of ?ts sl"
    and first: "\<forall>k. slot_index k < slot_index sl \<longrightarrow> rate_of ?ts k < rate_of ?ts sl"
    using C7_most_productive_slot [of ?ts] by blast
  have "sl = Morning"
  proof (cases sl)
    case Morning
    then show ?thesis .
  next
    case Afternoon
    with first have "rate_of ?ts Morning < rate_of ?ts Afternoon"
      by (metis slot_index.simps(1,2) zero_less_one)
    with r show ?thesis by simp
  next
    case Evening
    with best have "rate_of ?ts Morning \<le> rate_of ?ts Evening" by blast
    with r show ?thesis by simp
  qed
  with sl r show ?thesis by simp
qed

end
